theory Spec2Isabelle
  imports Main
begin

section \<open>Python values, exceptions and the object store\<close>

text \<open>
  The file \<^verbatim>\<open>hypothesis/searchstrategy/strategies.py\<close> defines the strategy base class
  \<^verbatim>\<open>SearchStrategy\<close>, the combinators \<^verbatim>\<open>OneOfStrategy\<close>, \<^verbatim>\<open>MappedSearchStrategy\<close> and
  \<^verbatim>\<open>FilteredStrategy\<close>, and the helper \<^verbatim>\<open>one_of_strategies\<close>. Strategies are Python
  objects: they have an identity, they are shared by reference, and two of the classes
  carry a mutable cache field. The model therefore keeps objects in an explicit store and
  passes references around, as the interpreter does.
\<close>

type_synonym ref = nat

text \<open>A Python value is an immediate value or a reference to an object in the store.\<close>

datatype pyval = PyNone | PyBool bool | PyInt int | PyStr string | PyObj ref

text \<open>
  The exceptions that can travel through this file. \<^verbatim>\<open>ValueError\<close> and
  \<^verbatim>\<open>NotImplementedError\<close> are raised by the file itself, \<^verbatim>\<open>AttributeError\<close>,
  \<^verbatim>\<open>IndexError\<close> and \<^verbatim>\<open>RuntimeError\<close> by the interpreter, \<^verbatim>\<open>UnsatisfiedAssumption\<close> by
  \<^verbatim>\<open>hypothesis.control.assume\<close>; \<open>OtherException\<close> stands for whatever the entropy source
  or a strategy defined elsewhere raises (for instance on running out of entropy).
\<close>

datatype exn =
    ValueError string
  | NotImplementedError string
  | AttributeError string
  | IndexError string
  | RuntimeError string
  | UnsatisfiedAssumption
  | OtherException string

text \<open>The name of the exception's class, which is what an \<^verbatim>\<open>except\<close> clause matches on.\<close>

fun exn_type :: "exn \<Rightarrow> string" where
  "exn_type (ValueError m) = ''ValueError''"
| "exn_type (NotImplementedError m) = ''NotImplementedError''"
| "exn_type (AttributeError m) = ''AttributeError''"
| "exn_type (IndexError m) = ''IndexError''"
| "exn_type (RuntimeError m) = ''RuntimeError''"
| "exn_type UnsatisfiedAssumption = ''UnsatisfiedAssumption''"
| "exn_type (OtherException m) = ''Exception''"

fun exn_message :: "exn \<Rightarrow> string" where
  "exn_message (ValueError m) = m"
| "exn_message (NotImplementedError m) = m"
| "exn_message (AttributeError m) = m"
| "exn_message (IndexError m) = m"
| "exn_message (RuntimeError m) = m"
| "exn_message UnsatisfiedAssumption = []"
| "exn_message (OtherException m) = m"

text \<open>
  The entropy source is the \<^verbatim>\<open>data\<close> argument of \<^verbatim>\<open>do_draw\<close>. Its class lives in
  \<^verbatim>\<open>hypothesis.internal.conjecture\<close>, outside this file; the only field the file reads is
  \<^verbatim>\<open>data.index\<close>. The record has that field, and every extension of the record is an
  admissible entropy source, so nothing is assumed about the rest of its state.
\<close>

record data =
  index :: nat

text \<open>
  A call that draws either raises or returns a value together with the entropy source as
  the call left it.
\<close>

datatype ('v, 'd) outcome = Raise exn | Return 'v 'd

text \<open>
  The objects of the store, by class. The type parameter \<open>'d\<close> is the type of the entropy
  source.
  \<^item> \<open>SearchStrategy name\<close>: an instance of \<^verbatim>\<open>SearchStrategy\<close> itself or of a subclass called
    \<open>name\<close> that inherits \<^verbatim>\<open>do_draw\<close> from the base class.
  \<^item> \<open>Primitive g\<close>: an instance of a strategy class defined in another module, whose own
    \<^verbatim>\<open>do_draw\<close> is \<open>g\<close>.
  \<^item> \<open>OneOfStrategy\<close>, \<open>MappedSearchStrategy\<close>, \<open>FilteredStrategy\<close>: the three combinators,
    with the fields their \<^verbatim>\<open>__init__\<close> sets. \<open>pack\<close> is absent (\<open>None\<close>) when
    \<^verbatim>\<open>__init__\<close> received \<^verbatim>\<open>pack=None\<close>; \<open>cached_repr\<close> is \<open>None\<close> until \<^verbatim>\<open>__repr__\<close>
    sets \<^verbatim>\<open>_cached_repr\<close>.
  \<^item> \<open>FlatMapStrategy\<close>: Modelled from the spec: the class is imported from
    \<^verbatim>\<open>hypothesis.searchstrategy.flatmapped\<close>, which is not part of this file; the object
    holds the two constructor arguments.
  \<^item> \<open>Foreign name\<close>: an object of a class that is not a \<^verbatim>\<open>SearchStrategy\<close>.
  Callables (\<^verbatim>\<open>pack\<close>, \<^verbatim>\<open>condition\<close>, \<^verbatim>\<open>expand\<close>) are pure functions of the value they
  receive; the truth value of what \<^verbatim>\<open>condition\<close> returns is its \<open>bool\<close> result.
\<close>

datatype 'd obj =
    SearchStrategy (type_name: string)
  | Primitive (prim_do_draw: "'d \<Rightarrow> (pyval, 'd) outcome")
  | OneOfStrategy (element_strategies: "pyval list")
  | MappedSearchStrategy (mapped_strategy: pyval) (pack: "(pyval \<Rightarrow> pyval) option")
      (cached_repr: "string option")
  | FilteredStrategy (filtered_strategy: pyval) (condition: "pyval \<Rightarrow> bool")
      (cached_repr: "string option")
  | FlatMapStrategy (flatmapped_strategy: pyval) (expand: "pyval \<Rightarrow> pyval")
  | Foreign (type_name: string)

type_synonym 'd heap = "'d obj list"

definition lookup :: "'d heap \<Rightarrow> ref \<Rightarrow> 'd obj option" where
  "lookup h r = (if r < length h then Some (h ! r) else None)"

text \<open>Creating an object: it gets the next unused address.\<close>

definition alloc :: "'d heap \<Rightarrow> 'd obj \<Rightarrow> pyval \<times> 'd heap" where
  "alloc h ob = (PyObj (length h), h @ [ob])"

text \<open>\<^verbatim>\<open>isinstance(v, SearchStrategy)\<close>.\<close>

fun is_strategy :: "'d obj \<Rightarrow> bool" where
  "is_strategy (Foreign n) = False"
| "is_strategy ob = True"

definition isinstance_SearchStrategy :: "'d heap \<Rightarrow> pyval \<Rightarrow> bool" where
  "isinstance_SearchStrategy h v =
     (case v of
        PyObj r \<Rightarrow> (case lookup h r of Some ob \<Rightarrow> is_strategy ob | None \<Rightarrow> False)
      | _ \<Rightarrow> False)"

text \<open>
  Subscription of a list by an integer, \<^verbatim>\<open>xs[i]\<close>: indices from \<open>-len\<close> to \<open>-1\<close> count from
  the end, anything outside \<open>-len .. len - 1\<close> raises \<^verbatim>\<open>IndexError\<close>.
\<close>

definition getitem :: "'a list \<Rightarrow> int \<Rightarrow> exn + 'a" where
  "getitem xs i =
     (if 0 \<le> i \<and> i < int (length xs) then Inr (xs ! nat i)
      else if - int (length xs) \<le> i \<and> i < 0 then Inr (xs ! nat (int (length xs) + i))
      else Inl (IndexError ''list index out of range''))"

section \<open>Construction\<close>

text \<open>
  \<^verbatim>\<open>OneOfStrategy.__init__\<close> (lines 201-207), as the class call \<^verbatim>\<open>OneOfStrategy(strategies)\<close>:
  it copies the argument into a tuple, refuses fewer than two elements and stores a fresh
  list of them.
\<close>

definition OneOfStrategy_init :: "'d heap \<Rightarrow> pyval list \<Rightarrow> exn + pyval \<times> 'd heap" where
  "OneOfStrategy_init h strategies =
     (if length strategies \<le> 1
      then Inl (ValueError ''Need at least 2 strategies to choose amongst'')
      else Inr (alloc h (OneOfStrategy strategies)))"

text \<open>\<^verbatim>\<open>one_of_strategies\<close> (lines 41-48).\<close>

definition one_of_strategies :: "'d heap \<Rightarrow> pyval list \<Rightarrow> exn + pyval \<times> 'd heap" where
  "one_of_strategies h xs =
     (if xs = [] then Inl (ValueError ''Cannot join an empty list of strategies'')
      else if length xs = 1 then Inr (xs ! 0, h)
      else OneOfStrategy_init h xs)"

text \<open>\<^verbatim>\<open>MappedSearchStrategy.__init__\<close> (lines 226-230) and \<^verbatim>\<open>FilteredStrategy.__init__\<close>
  (lines 246-249), as class calls.\<close>

definition MappedSearchStrategy_init ::
  "'d heap \<Rightarrow> pyval \<Rightarrow> (pyval \<Rightarrow> pyval) option \<Rightarrow> pyval \<times> 'd heap" where
  "MappedSearchStrategy_init h strategy pack_arg =
     alloc h (MappedSearchStrategy strategy pack_arg None)"

definition FilteredStrategy_init ::
  "'d heap \<Rightarrow> pyval \<Rightarrow> (pyval \<Rightarrow> bool) \<Rightarrow> pyval \<times> 'd heap" where
  "FilteredStrategy_init h strategy condition_arg =
     alloc h (FilteredStrategy strategy condition_arg None)"

text \<open>
  Modelled from the spec: the constructor of \<^verbatim>\<open>FlatMapStrategy\<close> is in
  \<^verbatim>\<open>hypothesis.searchstrategy.flatmapped\<close>, not in this file. The spec says that \<^verbatim>\<open>bind\<close>
  returns a new strategy, without mutating the receiver, that draws \<open>x\<close> from the receiver
  and then draws from \<open>expand x\<close>: the constructor creates an object holding both arguments.
\<close>

definition FlatMapStrategy_init ::
  "'d heap \<Rightarrow> (pyval \<Rightarrow> pyval) \<Rightarrow> pyval \<Rightarrow> pyval \<times> 'd heap" where
  "FlatMapStrategy_init h expand_arg strategy =
     alloc h (FlatMapStrategy strategy expand_arg)"

text \<open>The public methods \<^verbatim>\<open>map\<close>, \<^verbatim>\<open>flatmap\<close> and \<^verbatim>\<open>filter\<close> of \<^verbatim>\<open>SearchStrategy\<close>
  (lines 134-170); \<open>self\<close> is the address of the receiver.\<close>

definition map_strategy :: "'d heap \<Rightarrow> ref \<Rightarrow> (pyval \<Rightarrow> pyval) \<Rightarrow> pyval \<times> 'd heap" where
  "map_strategy h self pack_arg = MappedSearchStrategy_init h (PyObj self) (Some pack_arg)"

definition flatmap :: "'d heap \<Rightarrow> ref \<Rightarrow> (pyval \<Rightarrow> pyval) \<Rightarrow> pyval \<times> 'd heap" where
  "flatmap h self expand_arg = FlatMapStrategy_init h expand_arg (PyObj self)"

definition filter_strategy :: "'d heap \<Rightarrow> ref \<Rightarrow> (pyval \<Rightarrow> bool) \<Rightarrow> pyval \<times> 'd heap" where
  "filter_strategy h self condition_arg = FilteredStrategy_init h (PyObj self) condition_arg"

text \<open>
  Descriptions that come from outside this file: the interpreter's \<^verbatim>\<open>repr\<close> on a value
  whose class does not define \<^verbatim>\<open>__repr__\<close> here, and \<^verbatim>\<open>get_pretty_function_description\<close>
  of \<^verbatim>\<open>hypothesis.internal.reflection\<close> on a \<^verbatim>\<open>pack\<close> and on a \<^verbatim>\<open>condition\<close>. They are
  parameters, taken to be functions of their argument. The \<^verbatim>\<open>__repr__\<close> of a class defined
  elsewhere is arbitrary code: it returns a description or raises an exception.
\<close>

record printers =
  repr_other :: "pyval \<Rightarrow> exn + string"
  describe_pack :: "(pyval \<Rightarrow> pyval) \<Rightarrow> string"
  describe_condition :: "(pyval \<Rightarrow> bool) \<Rightarrow> string"

text \<open>
  \<^verbatim>\<open>SearchStrategy.__or__\<close> (lines 172-181). On line 180 the argument of \<^verbatim>\<open>ValueError\<close> is
  evaluated first: the message is formatted with \<^verbatim>\<open>%r\<close>, which calls \<^verbatim>\<open>repr(other)\<close> on an
  operand that is then not a strategy. When that call raises, its exception leaves
  \<^verbatim>\<open>__or__\<close> and no \<^verbatim>\<open>ValueError\<close> is built.
\<close>

definition or_strategy ::
  "printers \<Rightarrow> 'd heap \<Rightarrow> ref \<Rightarrow> pyval \<Rightarrow> exn + pyval \<times> 'd heap" where
  "or_strategy pr h self other =
     (if \<not> isinstance_SearchStrategy h other
      then (case repr_other pr other of
              Inl e \<Rightarrow> Inl e
            | Inr described \<Rightarrow>
                Inl (ValueError (''Cannot | a SearchStrategy with '' @ described)))
      else one_of_strategies h [PyObj self, other])"

section \<open>Drawing\<close>

text \<open>
  Modelled from the spec: \<^verbatim>\<open>hypothesis.control.assume\<close> is imported, not defined here. Given
  a condition it either continues normally or abandons the current attempt with the
  unsatisfied-assumption signal.
\<close>

definition assume_that :: "bool \<Rightarrow> exn + bool" where
  "assume_that c = (if c then Inr True else Inl UnsatisfiedAssumption)"

text \<open>
  \<^verbatim>\<open>do_draw\<close>, dispatched on the class of \<open>self\<close> as the interpreter does for the call
  \<^verbatim>\<open>self.do_draw(data)\<close>. The first argument is \<^verbatim>\<open>integer_range\<close> of
  \<^verbatim>\<open>hypothesis.internal.conjecture.utils\<close>, which is imported, not defined in this file: it
  is a parameter, with no assumption on what it returns. The store is only read.
  The calls \<^verbatim>\<open>data.draw(s)\<close> of lines 210 and 262 are written as the call of \<open>do_draw\<close> they
  lead to (see \<open>draw\<close> below), since the recursion goes through them.

  \<^item> \<^verbatim>\<open>SearchStrategy.do_draw\<close> (lines 183-184) raises \<^verbatim>\<open>NotImplementedError\<close> with the
    name of the class of \<open>self\<close>.
  \<^item> \<^verbatim>\<open>OneOfStrategy.do_draw\<close> (lines 209-211) evaluates \<^verbatim>\<open>integer_range(data, 0, len - 1)\<close>,
    subscripts the list with the result and draws from that element.
  \<^item> \<^verbatim>\<open>MappedSearchStrategy.do_draw\<close> (lines 240-241) looks \<^verbatim>\<open>self.pack\<close> up first (an
    \<^verbatim>\<open>AttributeError\<close> when it was never set), then draws, then applies it.
  \<^item> \<^verbatim>\<open>FilteredStrategy.do_draw\<close> (lines 259-269) is a \<^verbatim>\<open>while True\<close> loop whose body is the
    whole method, so one more iteration is the same call on the entropy source as the
    rejected draw left it.
  \<^item> \<open>FlatMapStrategy\<close>: Modelled from the spec (the method is not in this file): draw \<open>x\<close>
    from the wrapped strategy, then draw from \<open>expand x\<close>.
  \<^item> A value that has no \<^verbatim>\<open>do_draw\<close> attribute (an immediate value, an object of another
    class; an address without an object, which Python cannot produce, is treated alike)
    raises \<^verbatim>\<open>AttributeError\<close>.
  The result is \<open>None\<close> exactly when the call does not return.
\<close>

partial_function (option) do_draw ::
  "('a data_scheme \<Rightarrow> int \<Rightarrow> int \<Rightarrow> (int, 'a data_scheme) outcome) \<Rightarrow>
   'a data_scheme heap \<Rightarrow> pyval \<Rightarrow> 'a data_scheme \<Rightarrow>
   (pyval, 'a data_scheme) outcome option" where
  "do_draw integer_range h self data =
     (case self of
        PyObj r \<Rightarrow>
          (case lookup h r of
             Some (SearchStrategy name) \<Rightarrow>
               Some (Raise (NotImplementedError (name @ ''.do_draw'')))
           | Some (Primitive g) \<Rightarrow> Some (g data)
           | Some (OneOfStrategy xs) \<Rightarrow>
               (case integer_range data 0 (int (length xs) - 1) of
                  Raise e \<Rightarrow> Some (Raise e)
                | Return i data' \<Rightarrow>
                    (case getitem xs i of
                       Inl e \<Rightarrow> Some (Raise e)
                     | Inr s \<Rightarrow> do_draw integer_range h s data'))
           | Some (MappedSearchStrategy s pack_field c) \<Rightarrow>
               (case pack_field of
                  None \<Rightarrow> Some (Raise (AttributeError ''pack''))
                | Some f \<Rightarrow>
                    Option.bind (do_draw integer_range h s data) (\<lambda>res.
                      case res of
                        Raise e \<Rightarrow> Some (Raise e)
                      | Return v data' \<Rightarrow> Some (Return (f v) data')))
           | Some (FilteredStrategy s cond c) \<Rightarrow>
               (let start_index = index data in
                Option.bind (do_draw integer_range h s data) (\<lambda>res.
                  case res of
                    Raise e \<Rightarrow> Some (Raise e)
                  | Return v data' \<Rightarrow>
                      if cond v then Some (Return v data')
                      else (case assume_that (index data' > start_index) of
                              Inl e \<Rightarrow> Some (Raise e)
                            | Inr u \<Rightarrow> do_draw integer_range h self data')))
           | Some (FlatMapStrategy s expand_field) \<Rightarrow>
               Option.bind (do_draw integer_range h s data) (\<lambda>res.
                 case res of
                   Raise e \<Rightarrow> Some (Raise e)
                 | Return x data' \<Rightarrow> do_draw integer_range h (expand_field x) data')
           | Some (Foreign name) \<Rightarrow> Some (Raise (AttributeError ''do_draw''))
           | None \<Rightarrow> Some (Raise (AttributeError ''do_draw'')))
      | _ \<Rightarrow> Some (Raise (AttributeError ''do_draw'')))"

text \<open>
  Modelled from the spec: \<^verbatim>\<open>data.draw(strategy)\<close> is a method of the entropy source, whose
  class is in \<^verbatim>\<open>hypothesis.internal.conjecture\<close> and not in this file. By the spec it
  "delegates to the strategy's generation procedure, recursively".
\<close>

definition draw ::
  "('a data_scheme \<Rightarrow> int \<Rightarrow> int \<Rightarrow> (int, 'a data_scheme) outcome) \<Rightarrow>
   'a data_scheme heap \<Rightarrow> 'a data_scheme \<Rightarrow> pyval \<Rightarrow>
   (pyval, 'a data_scheme) outcome option" where
  "draw integer_range h data strategy = do_draw integer_range h strategy data"

section \<open>Diagnostic description\<close>

text \<open>\<^verbatim>\<open>sep.join(strings)\<close>.\<close>

fun join :: "string \<Rightarrow> string list \<Rightarrow> string" where
  "join sep [] = []"
| "join sep [s] = s"
| "join sep (s # t # ss) = s @ sep @ join sep (t # ss)"

text \<open>
  The assignment \<^verbatim>\<open>self._cached_repr = str\<close>, on an object of one of the two classes whose
  \<^verbatim>\<open>__repr__\<close> makes it, followed by \<^verbatim>\<open>return self._cached_repr\<close>.
\<close>

fun set_cached_repr :: "string \<Rightarrow> 'd obj \<Rightarrow> 'd obj" where
  "set_cached_repr str (MappedSearchStrategy s p c) = MappedSearchStrategy s p (Some str)"
| "set_cached_repr str (FilteredStrategy s p c) = FilteredStrategy s p (Some str)"
| "set_cached_repr str ob = ob"

definition cache_repr :: "ref \<Rightarrow> string \<Rightarrow> 'd heap \<Rightarrow> (exn + string) \<times> 'd heap" where
  "cache_repr r str h = (Inr str, h[r := set_cached_repr str (h ! r)])"

text \<open>
  \<^verbatim>\<open>map(repr, xs)\<close>: the descriptions of the elements from left to right, each computed in
  the store the previous one left; the first exception ends it.
\<close>

fun repr_elements ::
  "('d heap \<Rightarrow> pyval \<Rightarrow> (exn + string) \<times> 'd heap) \<Rightarrow> 'd heap \<Rightarrow> pyval list \<Rightarrow>
   (exn + string list) \<times> 'd heap" where
  "repr_elements rp h [] = (Inr [], h)"
| "repr_elements rp h (x # xs) =
     (case rp h x of
        (Inl e, h1) \<Rightarrow> (Inl e, h1)
      | (Inr s, h1) \<Rightarrow>
          (case repr_elements rp h1 xs of
             (Inl e, h2) \<Rightarrow> (Inl e, h2)
           | (Inr ss, h2) \<Rightarrow> (Inr (s # ss), h2)))"

text \<open>
  \<^verbatim>\<open>repr(v)\<close>, which is the only place of the file that writes a field of an existing
  object: \<^verbatim>\<open>OneOfStrategy.__repr__\<close> (lines 213-214), \<^verbatim>\<open>MappedSearchStrategy.__repr__\<close>
  (lines 232-238) and \<^verbatim>\<open>FilteredStrategy.__repr__\<close> (lines 251-257). The two cached ones
  return \<^verbatim>\<open>_cached_repr\<close> when the object has it; otherwise they build the tuple of the
  format arguments (where \<^verbatim>\<open>self.pack\<close> raises \<^verbatim>\<open>AttributeError\<close> when it was never set),
  format it, which takes the description of the wrapped strategy, and store the result.
  The result is the description or the exception, together with the store as the call
  left it. Descriptions nest as deep as the strategies do, and the interpreter allows only
  so many nested calls: the first argument is the number of nested \<^verbatim>\<open>repr\<close> calls
  still allowed, and the call that exceeds it raises the interpreter's \<^verbatim>\<open>RuntimeError\<close>.
\<close>

primrec repr_value ::
  "nat \<Rightarrow> printers \<Rightarrow> 'd heap \<Rightarrow> pyval \<Rightarrow> (exn + string) \<times> 'd heap" where
  "repr_value 0 pr h v = (Inl (RuntimeError ''maximum recursion depth exceeded''), h)"
| "repr_value (Suc n) pr h v =
     (case v of
        PyObj r \<Rightarrow>
          (case lookup h r of
             Some (OneOfStrategy xs) \<Rightarrow>
               (case repr_elements (repr_value n pr) h xs of
                  (Inl e, h1) \<Rightarrow> (Inl e, h1)
                | (Inr ss, h1) \<Rightarrow> (Inr (join '' | '' ss), h1))
           | Some (MappedSearchStrategy s p c) \<Rightarrow>
               (case c of
                  Some str \<Rightarrow> (Inr str, h)
                | None \<Rightarrow>
                    (case p of
                       None \<Rightarrow> (Inl (AttributeError ''pack''), h)
                     | Some f \<Rightarrow>
                         (case repr_value n pr h s of
                            (Inl e, h1) \<Rightarrow> (Inl e, h1)
                          | (Inr rs, h1) \<Rightarrow>
                              cache_repr r (rs @ ''.map('' @ describe_pack pr f @ '')'') h1)))
           | Some (FilteredStrategy s cond c) \<Rightarrow>
               (case c of
                  Some str \<Rightarrow> (Inr str, h)
                | None \<Rightarrow>
                    (case repr_value n pr h s of
                       (Inl e, h1) \<Rightarrow> (Inl e, h1)
                     | (Inr rs, h1) \<Rightarrow>
                         cache_repr r
                           (rs @ ''.filter('' @ describe_condition pr cond @ '')'') h1))
           | _ \<Rightarrow> (repr_other pr v, h))
      | _ \<Rightarrow> (repr_other pr v, h))"

text \<open>An object without its cache: what \<^verbatim>\<open>del self._cached_repr\<close> would leave.\<close>

fun without_cache :: "'d obj \<Rightarrow> 'd obj" where
  "without_cache (MappedSearchStrategy s p c) = MappedSearchStrategy s p None"
| "without_cache (FilteredStrategy s p c) = FilteredStrategy s p None"
| "without_cache ob = ob"

section \<open>Example inputs\<close>

text \<open>
  Inputs on which the model is run below. They are not part of the file under study.
\<close>

text \<open>
  Modelled from the spec: an entropy source for the examples. The spec describes the
  source as an ordered, consumable supply of draws with a consumption counter and an
  \<^verbatim>\<open>integer_range(low, high)\<close> primitive returning an integer of \<open>[low, high]\<close> while
  consuming entropy. Here the supply is a finite tape of choices; one call of
  \<open>tape_integer_range\<close> consumes one of them, and an empty tape ends the attempt.
\<close>

record tape_data = data +
  tape :: "nat list"

definition tape_integer_range :: "tape_data \<Rightarrow> int \<Rightarrow> int \<Rightarrow> (int, tape_data) outcome" where
  "tape_integer_range d lo hi =
     (case tape d of
        [] \<Rightarrow> Raise (OtherException ''out of entropy'')
      | c # cs \<Rightarrow>
          Return (lo + int c mod (hi - lo + 1)) (d\<lparr>index := index d + 1, tape := cs\<rparr>))"

definition source :: "nat list \<Rightarrow> tape_data" where
  "source cs = \<lparr>index = 0, tape = cs\<rparr>"

text \<open>
  Strategies of the kind defined in other modules: the constant strategy of the spec's
  end-to-end scenario, which returns its value and consumes no entropy, and a strategy
  that consumes one unit of entropy per draw and returns the position it was at.
\<close>

definition constant_strategy :: "pyval \<Rightarrow> 'a data_scheme obj" where
  "constant_strategy v = Primitive (\<lambda>d. Return v d)"

definition position_strategy :: "'a data_scheme obj" where
  "position_strategy =
     Primitive (\<lambda>d. Return (PyInt (int (index d))) (d\<lparr>index := index d + 1\<rparr>))"

definition successor :: "pyval \<Rightarrow> pyval" where
  "successor v = (case v of PyInt n \<Rightarrow> PyInt (n + 1) | _ \<Rightarrow> PyNone)"

definition example_printers :: printers where
  "example_printers =
     \<lparr>repr_other =
        (\<lambda>v. case v of
               PyNone \<Rightarrow> Inr ''None''
             | PyObj r \<Rightarrow> Inr ''<object>''
             | _ \<Rightarrow> Inr ''<value>''),
      describe_pack = (\<lambda>f. ''f''),
      describe_condition = (\<lambda>p. ''p'')\<rparr>"

text \<open>
  The same descriptions, except that \<^verbatim>\<open>repr\<close> of an object raises, as for an instance of
  \<^verbatim>\<open>class BadRepr\<close> whose \<^verbatim>\<open>__repr__\<close> is \<^verbatim>\<open>raise RuntimeError('boom')\<close>.
\<close>

definition bad_repr_printers :: printers where
  "bad_repr_printers =
     \<lparr>repr_other =
        (\<lambda>v. case v of
               PyNone \<Rightarrow> Inr ''None''
             | PyObj r \<Rightarrow> Inl (RuntimeError ''boom'')
             | _ \<Rightarrow> Inr ''<value>''),
      describe_pack = (\<lambda>f. ''f''),
      describe_condition = (\<lambda>p. ''p'')\<rparr>"

text \<open>
  A store with, at addresses 0 to 9: the constant strategies \<open>A\<close> (always 1) and \<open>B\<close>
  (always 2), \<^verbatim>\<open>A.filter(lambda x: x == 1)\<close>, \<^verbatim>\<open>A.filter(lambda x: x == 2)\<close>, the position
  strategy \<open>P\<close>, \<^verbatim>\<open>P.filter(lambda x: x == 2)\<close>, \<^verbatim>\<open>P.map(successor)\<close>, the union of \<open>A\<close> and
  \<open>B\<close>, an instance of a subclass \<^verbatim>\<open>Incomplete\<close> that does not define \<^verbatim>\<open>do_draw\<close>, and
  the constant strategy \<open>C\<close> (always 3).
\<close>

definition example_heap :: "tape_data heap" where
  "example_heap =
     [constant_strategy (PyInt 1),
      constant_strategy (PyInt 2),
      FilteredStrategy (PyObj 0) (\<lambda>x. x = PyInt 1) None,
      FilteredStrategy (PyObj 0) (\<lambda>x. x = PyInt 2) None,
      position_strategy,
      FilteredStrategy (PyObj 4) (\<lambda>x. x = PyInt 2) None,
      MappedSearchStrategy (PyObj 4) (Some successor) None,
      OneOfStrategy [PyObj 0, PyObj 1],
      SearchStrategy ''Incomplete'',
      constant_strategy (PyInt 3)]"

text \<open>The same store with an instance of \<^verbatim>\<open>BadRepr\<close> at address 10.\<close>

definition bad_repr_heap :: "tape_data heap" where
  "bad_repr_heap = example_heap @ [Foreign ''BadRepr'']"

section \<open>The store\<close>

lemma lookup_alloc_new: "lookup (h @ [ob]) (length h) = Some ob"
  by (simp add: lookup_def)

lemma lookup_alloc_old: "lookup h q = Some ob \<Longrightarrow> lookup (h @ [ob']) q = Some ob"
  by (auto simp: lookup_def nth_append split: if_splits)

lemma lookup_fresh: "lookup h (length h) = None"
  by (simp add: lookup_def)

lemma alloc_creates:
  assumes "alloc h ob = (v, h')" and "is_strategy ob"
  shows "v = PyObj (length h) \<and> lookup h (length h) = None
       \<and> isinstance_SearchStrategy h' v
       \<and> (\<forall>q old. lookup h q = Some old \<longrightarrow> lookup h' q = Some old)"
  using assms
  by (auto simp: alloc_def isinstance_SearchStrategy_def lookup_alloc_new lookup_fresh
      intro: lookup_alloc_old)

section \<open>One step of each \<^verbatim>\<open>do_draw\<close>\<close>

text \<open>
  The defining equation of \<open>do_draw\<close>, specialised to the class of the receiver. These are
  the facts every property below is derived from.
\<close>

lemma do_draw_SearchStrategy:
  "lookup h r = Some (SearchStrategy name) \<Longrightarrow>
   do_draw ir h (PyObj r) d = Some (Raise (NotImplementedError (name @ ''.do_draw'')))"
  by (subst do_draw.simps) simp

lemma do_draw_Primitive:
  "lookup h r = Some (Primitive g) \<Longrightarrow> do_draw ir h (PyObj r) d = Some (g d)"
  by (subst do_draw.simps) simp

lemma do_draw_OneOf:
  "lookup h r = Some (OneOfStrategy xs) \<Longrightarrow>
   do_draw ir h (PyObj r) d =
     (case ir d 0 (int (length xs) - 1) of
        Raise e \<Rightarrow> Some (Raise e)
      | Return i d' \<Rightarrow>
          (case getitem xs i of
             Inl e \<Rightarrow> Some (Raise e)
           | Inr s \<Rightarrow> draw ir h d' s))"
  unfolding draw_def by (subst do_draw.simps) simp

lemma do_draw_Mapped:
  "lookup h r = Some (MappedSearchStrategy s (Some f) c) \<Longrightarrow>
   do_draw ir h (PyObj r) d =
     Option.bind (do_draw ir h s d) (\<lambda>res.
        case res of
          Raise e \<Rightarrow> Some (Raise e)
        | Return v d' \<Rightarrow> Some (Return (f v) d'))"
  by (subst do_draw.simps) simp

lemma do_draw_Filtered:
  "lookup h r = Some (FilteredStrategy s cond c) \<Longrightarrow>
   do_draw ir h (PyObj r) d =
     Option.bind (draw ir h d s) (\<lambda>res.
        case res of
          Raise e \<Rightarrow> Some (Raise e)
        | Return v d' \<Rightarrow>
            if cond v then Some (Return v d')
            else if index d < index d' then do_draw ir h (PyObj r) d'
            else Some (Raise UnsatisfiedAssumption))"
  by (subst do_draw.simps)
     (auto simp: assume_that_def draw_def split: Option.bind_splits outcome.splits)

section \<open>Running the examples\<close>

lemma example_lookups:
  "lookup example_heap 0 = Some (constant_strategy (PyInt 1))"
  "lookup example_heap 1 = Some (constant_strategy (PyInt 2))"
  "lookup example_heap 2 = Some (FilteredStrategy (PyObj 0) (\<lambda>x. x = PyInt 1) None)"
  "lookup example_heap 3 = Some (FilteredStrategy (PyObj 0) (\<lambda>x. x = PyInt 2) None)"
  "lookup example_heap 4 = Some position_strategy"
  "lookup example_heap 5 = Some (FilteredStrategy (PyObj 4) (\<lambda>x. x = PyInt 2) None)"
  "lookup example_heap 6 = Some (MappedSearchStrategy (PyObj 4) (Some successor) None)"
  "lookup example_heap 7 = Some (OneOfStrategy [PyObj 0, PyObj 1])"
  "lookup example_heap 8 = Some (SearchStrategy ''Incomplete'')"
  "lookup example_heap 9 = Some (constant_strategy (PyInt 3))"
  by (simp_all add: example_heap_def lookup_def)

lemma length_example_heap: "length example_heap = 10"
  by (simp add: example_heap_def)

lemma draw_constant:
  "lookup h r = Some (constant_strategy v) \<Longrightarrow> draw ir h d (PyObj r) = Some (Return v d)"
  by (simp add: draw_def constant_strategy_def do_draw_Primitive)

lemma draw_position:
  "lookup h r = Some position_strategy \<Longrightarrow>
   draw ir h d (PyObj r) = Some (Return (PyInt (int (index d))) (d\<lparr>index := index d + 1\<rparr>))"
  by (simp add: draw_def position_strategy_def do_draw_Primitive)

section \<open>The filter loop\<close>

text \<open>
  The comment in \<^verbatim>\<open>FilteredStrategy.do_draw\<close> says: "As long as we consume data, we'll
  eventually pass or raise." The lemma makes the argument explicit. If every draw from the
  wrapped strategy returns, and the position of the entropy source never exceeds a budget
  \<open>B\<close> after a successful draw, then the loop returns: each retry starts from a strictly
  larger position, so there are at most \<open>B + 1\<close> of them.
\<close>

lemma filtered_draw_returns_within_budget:
  assumes lk: "lookup h r = Some (FilteredStrategy s cond c)"
    and tot: "\<And>d. draw ir h d s \<noteq> None"
    and bound: "\<And>d v d'. draw ir h d s = Some (Return v d') \<Longrightarrow> index d' \<le> B"
  shows "do_draw ir h (PyObj r) d \<noteq> None"
proof (induction "Suc B - index d" arbitrary: d rule: less_induct)
  case less
  obtain res where res: "draw ir h d s = Some res"
    using tot [of d] by (cases "draw ir h d s") auto
  show ?case
  proof (cases res)
    case (Raise e)
    then show ?thesis using lk res by (simp add: do_draw_Filtered)
  next
    case (Return v d')
    show ?thesis
    proof (cases "cond v \<or> \<not> index d < index d'")
      case True
      then show ?thesis using lk res Return by (auto simp: do_draw_Filtered)
    next
      case False
      have "index d' \<le> B" using bound res Return by simp
      with False have "Suc B - index d' < Suc B - index d" by arith
      from less [OF this] show ?thesis
        using lk res Return False by (simp add: do_draw_Filtered)
    qed
  qed
qed

section \<open>What \<^verbatim>\<open>repr\<close> writes\<close>

text \<open>
  Whatever \<^verbatim>\<open>repr\<close> is applied to, the store it leaves has the same objects at the same
  addresses, equal up to their \<^verbatim>\<open>_cached_repr\<close>.
\<close>

lemma without_cache_set [simp]: "without_cache (set_cached_repr str ob) = without_cache ob"
  by (cases ob) simp_all

lemma map_without_cache_update:
  "map without_cache (h[r := set_cached_repr str (h ! r)]) = map without_cache h"
  by (metis list_update_id map_update without_cache_set)

lemma repr_elements_frame:
  assumes rp: "\<And>h x. map without_cache (snd (rp h x)) = map without_cache h"
  shows "map without_cache (snd (repr_elements rp h xs)) = map without_cache h"
proof (induction xs arbitrary: h)
  case Nil
  show ?case by simp
next
  case (Cons x xs)
  obtain r1 h1 where a: "rp h x = (r1, h1)" by (cases "rp h x")
  have f1: "map without_cache h1 = map without_cache h"
    using rp [of h x] a by simp
  show ?case
  proof (cases r1)
    case (Inl e)
    with a f1 show ?thesis by simp
  next
    case (Inr s)
    obtain r2 h2 where b: "repr_elements rp h1 xs = (r2, h2)"
      by (cases "repr_elements rp h1 xs")
    have "map without_cache h2 = map without_cache h1"
      using Cons.IH [of h1] b by simp
    with a b f1 Inr show ?thesis by (cases r2) simp_all
  qed
qed

lemma repr_value_frame:
  "map without_cache (snd (repr_value n pr h v)) = map without_cache h"
proof (induction n arbitrary: h v)
  case 0
  show ?case by simp
next
  case (Suc n)
  have wrapped:
    "map without_cache
       (snd (case repr_value n pr h s of
               (Inl e, h1) \<Rightarrow> (Inl e, h1)
             | (Inr rs, h1) \<Rightarrow> cache_repr r (mk rs) h1)) = map without_cache h"
    for s r and mk :: "string \<Rightarrow> string"
  proof -
    obtain r1 h1 where a: "repr_value n pr h s = (r1, h1)"
      by (cases "repr_value n pr h s")
    have "map without_cache h1 = map without_cache h"
      using Suc.IH [of h s] a by simp
    with a show ?thesis
      by (cases r1) (simp_all add: map_without_cache_update cache_repr_def)
  qed
  show ?case
  proof (cases v)
    case (PyObj r)
    show ?thesis
    proof (cases "lookup h r")
      case None
      with PyObj show ?thesis by simp
    next
      case (Some ob)
      show ?thesis
      proof (cases ob)
        case (OneOfStrategy xs)
        obtain r1 h1 where a: "repr_elements (repr_value n pr) h xs = (r1, h1)"
          by (cases "repr_elements (repr_value n pr) h xs")
        have "map without_cache h1 = map without_cache h"
          using repr_elements_frame [where rp = "repr_value n pr", OF Suc.IH, of h xs] a
          by simp
        with PyObj Some OneOfStrategy a show ?thesis by (cases r1) simp_all
      next
        case (MappedSearchStrategy s p c)
        show ?thesis
        proof (cases "c = None \<and> p \<noteq> None")
          case False
          with PyObj Some MappedSearchStrategy show ?thesis
            by (auto split: option.splits)
        next
          case True
          then obtain f where "c = None" and "p = Some f" by auto
          with PyObj Some MappedSearchStrategy
            wrapped [where s = s and r = r
                       and mk = "\<lambda>rs. rs @ ''.map('' @ describe_pack pr f @ '')''"]
          show ?thesis by simp
        qed
      next
        case (FilteredStrategy s cond c)
        show ?thesis
        proof (cases c)
          case (Some str)
          with PyObj \<open>lookup h r = Some ob\<close> FilteredStrategy show ?thesis
            by simp
        next
          case None
          with PyObj Some FilteredStrategy
            wrapped [where s = s and r = r
                       and mk = "\<lambda>rs. rs @ ''.filter('' @ describe_condition pr cond @ '')''"]
          show ?thesis by simp
        qed
      qed (use PyObj Some in simp_all)
    qed
  qed simp_all
qed

section \<open>Properties\<close>

text \<open>
  C1. In \<^verbatim>\<open>FilteredStrategy.do_draw\<close>, an iteration started on the entropy source \<open>d\<close> has
  \<open>start_index = index d\<close>. When the wrapped strategy returns a value \<open>v\<close> that the
  condition rejects, leaving the entropy source as \<open>d'\<close>, then: if \<open>index d'\<close> is not
  strictly greater than \<open>index d\<close>, the call returns by raising the signal of \<^verbatim>\<open>assume\<close>
  (it does not go round the loop again, so it cannot spin on a draw that consumes
  nothing); otherwise the loop goes round again, which is the same call started on \<open>d'\<close>,
  whose own \<open>start_index\<close> is \<open>index d'\<close>.
\<close>

theorem filter_retries_only_on_progress:
  assumes "lookup h r = Some (FilteredStrategy s cond c)"
    and "draw ir h d s = Some (Return v d')"
    and "\<not> cond v"
  shows "do_draw ir h (PyObj r) d =
           (if index d < index d' then do_draw ir h (PyObj r) d'
            else Some (Raise UnsatisfiedAssumption))"
  using assms by (simp add: do_draw_Filtered)

theorem filter_retries_only_on_progress_witness:
  "lookup example_heap 3 = Some (FilteredStrategy (PyObj 0) (\<lambda>x. x = PyInt 2) None)
   \<and> draw tape_integer_range example_heap (source []) (PyObj 0) =
       Some (Return (PyInt 1) (source []))
   \<and> PyInt 1 \<noteq> PyInt 2
   \<and> do_draw tape_integer_range example_heap (PyObj 3) (source []) =
       Some (Raise UnsatisfiedAssumption)
   \<and> lookup example_heap 5 = Some (FilteredStrategy (PyObj 4) (\<lambda>x. x = PyInt 2) None)
   \<and> draw tape_integer_range example_heap (source []) (PyObj 4) =
       Some (Return (PyInt 0) \<lparr>index = 1, tape = []\<rparr>)
   \<and> PyInt 0 \<noteq> PyInt 2
   \<and> do_draw tape_integer_range example_heap (PyObj 5) (source []) =
       do_draw tape_integer_range example_heap (PyObj 5) \<lparr>index = 1, tape = []\<rparr>"
proof -
  have a: "draw tape_integer_range example_heap (source []) (PyObj 0) =
             Some (Return (PyInt 1) (source []))"
    by (simp add: draw_constant example_lookups)
  have p: "draw tape_integer_range example_heap (source []) (PyObj 4) =
             Some (Return (PyInt 0) \<lparr>index = 1, tape = []\<rparr>)"
    by (simp add: draw_position example_lookups source_def)
  from filter_retries_only_on_progress [OF example_lookups(4) a]
       filter_retries_only_on_progress [OF example_lookups(6) p]
  show ?thesis using a p by (simp add: source_def example_lookups)
qed

text \<open>
  C2. \<^verbatim>\<open>one_of_strategies\<close> on a sequence of two or more values creates a new
  \<^verbatim>\<open>OneOfStrategy\<close> at an address that was unused, whose constituents are exactly the input
  sequence (so there are as many as the input has); on a sequence of one value it returns
  that very value and creates nothing; on the empty sequence it raises the \<^verbatim>\<open>ValueError\<close>
  "Cannot join an empty list of strategies". Calling the class \<^verbatim>\<open>OneOfStrategy\<close> directly
  with fewer than two elements raises a \<^verbatim>\<open>ValueError\<close>.
\<close>

theorem one_of_strategies_arity:
  "(2 \<le> length xs \<longrightarrow>
      one_of_strategies h xs = Inr (PyObj (length h), h @ [OneOfStrategy xs])
      \<and> lookup h (length h) = None
      \<and> lookup (h @ [OneOfStrategy xs]) (length h) = Some (OneOfStrategy xs))
   \<and> (length xs = 1 \<longrightarrow> one_of_strategies h xs = Inr (xs ! 0, h))
   \<and> (xs = [] \<longrightarrow>
        one_of_strategies h xs = Inl (ValueError ''Cannot join an empty list of strategies''))
   \<and> (length xs < 2 \<longrightarrow>
        OneOfStrategy_init h xs =
          Inl (ValueError ''Need at least 2 strategies to choose amongst''))"
  by (cases xs)
     (auto simp: one_of_strategies_def OneOfStrategy_init_def alloc_def lookup_def)

theorem one_of_strategies_arity_witness:
  "one_of_strategies example_heap [PyObj 0, PyObj 1, PyObj 4] =
     Inr (PyObj 10, example_heap @ [OneOfStrategy [PyObj 0, PyObj 1, PyObj 4]])
   \<and> lookup example_heap 10 = None
   \<and> lookup (example_heap @ [OneOfStrategy [PyObj 0, PyObj 1, PyObj 4]]) 10 =
       Some (OneOfStrategy [PyObj 0, PyObj 1, PyObj 4])
   \<and> one_of_strategies example_heap [PyObj 4] = Inr (PyObj 4, example_heap)
   \<and> one_of_strategies example_heap [] =
       Inl (ValueError ''Cannot join an empty list of strategies'')
   \<and> OneOfStrategy_init example_heap [PyObj 4] =
       Inl (ValueError ''Need at least 2 strategies to choose amongst'')
   \<and> OneOfStrategy_init example_heap [] =
       Inl (ValueError ''Need at least 2 strategies to choose amongst'')"
  using one_of_strategies_arity [of "[PyObj 0, PyObj 1, PyObj 4]" example_heap]
        one_of_strategies_arity [of "[PyObj 4]" example_heap]
        one_of_strategies_arity [of "[]" example_heap]
  by (simp add: length_example_heap)

text \<open>
  C3. A \<^verbatim>\<open>MappedSearchStrategy\<close> built with the function \<open>f\<close> over the strategy \<open>s\<close> draws
  as follows: when \<open>s\<close> alone, on the same entropy source, returns \<open>v\<close> and leaves the
  source as \<open>d'\<close>, the mapped strategy returns \<open>f v\<close> and leaves the source as the same
  \<open>d'\<close>. An exception of \<open>s\<close> passes through unchanged, and the mapped draw returns
  exactly when the wrapped one does.
\<close>

theorem mapped_draw_applies_pack:
  assumes "lookup h r = Some (MappedSearchStrategy s (Some f) c)"
  shows "(\<forall>v d'. do_draw ir h s d = Some (Return v d') \<longrightarrow>
            do_draw ir h (PyObj r) d = Some (Return (f v) d'))
       \<and> (\<forall>e. do_draw ir h s d = Some (Raise e) \<longrightarrow>
            do_draw ir h (PyObj r) d = Some (Raise e))
       \<and> (do_draw ir h s d = None \<longrightarrow> do_draw ir h (PyObj r) d = None)"
  using assms by (simp add: do_draw_Mapped)

theorem mapped_draw_applies_pack_witness:
  "lookup example_heap 6 = Some (MappedSearchStrategy (PyObj 4) (Some successor) None)
   \<and> do_draw tape_integer_range example_heap (PyObj 4) (source [7]) =
       Some (Return (PyInt 0) \<lparr>index = 1, tape = [7]\<rparr>)
   \<and> do_draw tape_integer_range example_heap (PyObj 6) (source [7]) =
       Some (Return (PyInt 1) \<lparr>index = 1, tape = [7]\<rparr>)"
proof -
  have p: "do_draw tape_integer_range example_heap (PyObj 4) (source [7]) =
             Some (Return (PyInt 0) \<lparr>index = 1, tape = [7]\<rparr>)"
    using draw_position [OF example_lookups(5), of tape_integer_range "source [7]"]
    by (simp add: draw_def source_def)
  from mapped_draw_applies_pack [OF example_lookups(7), of tape_integer_range "source [7]"] p
  show ?thesis by (simp add: example_lookups successor_def)
qed

text \<open>
  C4. \<^verbatim>\<open>OneOfStrategy.do_draw\<close> over the constituents \<open>xs\<close> first calls \<^verbatim>\<open>integer_range\<close>
  on the entropy source with the bounds \<open>0\<close> and \<open>length xs - 1\<close>. When that returns an
  index \<open>i\<close> of this range, leaving the source as \<open>d'\<close>, the result of the draw is the
  result of drawing from constituent \<open>i\<close> on \<open>d'\<close>, whatever that is; when it raises, the
  draw raises the same exception. That the index is uniformly distributed is a property of
  the primitive, which is outside this file.
\<close>

theorem oneof_draw_selects_constituent:
  assumes "lookup h r = Some (OneOfStrategy xs)"
  shows "(\<forall>i d'. ir d 0 (int (length xs) - 1) = Return i d' \<longrightarrow>
            0 \<le> i \<longrightarrow> i \<le> int (length xs) - 1 \<longrightarrow>
            do_draw ir h (PyObj r) d = draw ir h d' (xs ! nat i))
       \<and> (\<forall>e. ir d 0 (int (length xs) - 1) = Raise e \<longrightarrow>
            do_draw ir h (PyObj r) d = Some (Raise e))"
  using assms by (simp add: do_draw_OneOf getitem_def)

theorem oneof_draw_selects_constituent_witness:
  "lookup example_heap 7 = Some (OneOfStrategy [PyObj 0, PyObj 1])
   \<and> tape_integer_range (source [1]) 0 1 = Return 1 \<lparr>index = 1, tape = []\<rparr>
   \<and> do_draw tape_integer_range example_heap (PyObj 7) (source [1]) =
       Some (Return (PyInt 2) \<lparr>index = 1, tape = []\<rparr>)
   \<and> tape_integer_range (source []) 0 1 = Raise (OtherException ''out of entropy'')
   \<and> do_draw tape_integer_range example_heap (PyObj 7) (source []) =
       Some (Raise (OtherException ''out of entropy''))"
proof -
  have i: "tape_integer_range (source [1]) 0 (int (length [PyObj 0, PyObj 1]) - 1) =
             Return 1 \<lparr>index = 1, tape = []\<rparr>"
    by (simp add: tape_integer_range_def source_def)
  have e: "tape_integer_range (source []) 0 (int (length [PyObj 0, PyObj 1]) - 1) =
             Raise (OtherException ''out of entropy'')"
    by (simp add: tape_integer_range_def source_def)
  have b: "draw tape_integer_range example_heap \<lparr>index = 1, tape = []\<rparr> (PyObj 1) =
             Some (Return (PyInt 2) \<lparr>index = 1, tape = []\<rparr>)"
    by (rule draw_constant [OF example_lookups(2)])
  from oneof_draw_selects_constituent [OF example_lookups(8), of tape_integer_range "source [1]"]
       oneof_draw_selects_constituent [OF example_lookups(8), of tape_integer_range "source []"]
       i e b
  show ?thesis by (simp add: example_lookups)
qed

text \<open>
  C5. Whenever the value drawn from the wrapped strategy satisfies the condition,
  \<^verbatim>\<open>FilteredStrategy.do_draw\<close> returns that value and the entropy source as that one draw
  left it, whether or not the draw consumed entropy. In particular, for a constant
  strategy \<open>A\<close> that always produces 1, \<^verbatim>\<open>A.filter(lambda x: x == 1)\<close> returns 1 on every
  entropy source and leaves the source untouched.
\<close>

theorem filter_returns_satisfying_value:
  "(lookup h r = Some (FilteredStrategy s cond c) \<longrightarrow>
      draw ir h d s = Some (Return v d') \<longrightarrow> cond v \<longrightarrow>
      do_draw ir h (PyObj r) d = Some (Return v d'))
   \<and> (lookup h a = Some (constant_strategy (PyInt 1)) \<longrightarrow>
      filter_strategy h a (\<lambda>x. x = PyInt 1) = (fa, h1) \<longrightarrow>
      do_draw ir h1 fa d = Some (Return (PyInt 1) d))"
proof (intro conjI impI)
  assume "lookup h r = Some (FilteredStrategy s cond c)"
    and "draw ir h d s = Some (Return v d')" and "cond v"
  then show "do_draw ir h (PyObj r) d = Some (Return v d')"
    by (simp add: do_draw_Filtered)
next
  assume a: "lookup h a = Some (constant_strategy (PyInt 1))"
    and f: "filter_strategy h a (\<lambda>x. x = PyInt 1) = (fa, h1)"
  let ?ob = "FilteredStrategy (PyObj a) (\<lambda>x. x = PyInt 1) None :: 'a data_scheme obj"
  from f have fa: "fa = PyObj (length h)" and h1: "h1 = h @ [?ob]"
    by (simp_all add: filter_strategy_def FilteredStrategy_init_def alloc_def)
  have la: "lookup h1 a = Some (constant_strategy (PyInt 1))"
    unfolding h1 using a by (rule lookup_alloc_old)
  have lf: "lookup h1 (length h) = Some ?ob"
    unfolding h1 by (rule lookup_alloc_new)
  show "do_draw ir h1 fa d = Some (Return (PyInt 1) d)"
    unfolding fa by (simp add: do_draw_Filtered [OF lf] draw_constant [OF la])
qed

theorem filter_returns_satisfying_value_witness:
  "lookup example_heap 5 = Some (FilteredStrategy (PyObj 4) (\<lambda>x. x = PyInt 2) None)
   \<and> draw tape_integer_range example_heap \<lparr>index = 2, tape = []\<rparr> (PyObj 4) =
       Some (Return (PyInt 2) \<lparr>index = 3, tape = []\<rparr>)
   \<and> do_draw tape_integer_range example_heap (PyObj 5) \<lparr>index = 2, tape = []\<rparr> =
       Some (Return (PyInt 2) \<lparr>index = 3, tape = []\<rparr>)
   \<and> lookup example_heap 0 = Some (constant_strategy (PyInt 1))
   \<and> filter_strategy example_heap 0 (\<lambda>x. x = PyInt 1) =
       (PyObj 10, example_heap @ [FilteredStrategy (PyObj 0) (\<lambda>x. x = PyInt 1) None])
   \<and> do_draw tape_integer_range
        (example_heap @ [FilteredStrategy (PyObj 0) (\<lambda>x. x = PyInt 1) None])
        (PyObj 10) (source []) = Some (Return (PyInt 1) (source []))"
proof -
  have p: "draw tape_integer_range example_heap \<lparr>index = 2, tape = []\<rparr> (PyObj 4) =
             Some (Return (PyInt 2) \<lparr>index = 3, tape = []\<rparr>)"
    by (simp add: draw_position example_lookups)
  have f: "filter_strategy example_heap 0 (\<lambda>x. x = PyInt 1) =
             (PyObj 10, example_heap @ [FilteredStrategy (PyObj 0) (\<lambda>x. x = PyInt 1) None])"
    by (simp add: filter_strategy_def FilteredStrategy_init_def alloc_def length_example_heap)
  from filter_returns_satisfying_value
         [of example_heap 5 "PyObj 4" "\<lambda>x. x = PyInt 2" None tape_integer_range
             "\<lparr>index = 2, tape = []\<rparr>" "PyInt 2" "\<lparr>index = 3, tape = []\<rparr>" 0 "PyObj 10"
             "example_heap @ [FilteredStrategy (PyObj 0) (\<lambda>x. x = PyInt 1) None]"]
       filter_returns_satisfying_value
         [of example_heap 5 "PyObj 4" "\<lambda>x. x = PyInt 2" None tape_integer_range
             "source []" "PyInt 2" "\<lparr>index = 3, tape = []\<rparr>" 0 "PyObj 10"
             "example_heap @ [FilteredStrategy (PyObj 0) (\<lambda>x. x = PyInt 1) None]"]
       p f
  show ?thesis by (simp add: example_lookups)
qed

text \<open>
  C6. \<^verbatim>\<open>s | other\<close> is the call \<^verbatim>\<open>s.__or__(other)\<close>. When \<^verbatim>\<open>other\<close> is not an instance of
  \<^verbatim>\<open>SearchStrategy\<close>, the call itself fails: no strategy is created and no entropy source
  is involved, so the failure happens when the operator is applied. It fails with the
  \<^verbatim>\<open>ValueError\<close> "Cannot | a SearchStrategy with ..." (the spec's InvalidOperand) when
  \<^verbatim>\<open>repr(other)\<close> returns, and with the exception of \<^verbatim>\<open>repr(other)\<close> when that raises. When
  \<^verbatim>\<open>other\<close> is an instance of \<^verbatim>\<open>SearchStrategy\<close>, the call returns a new object, the union of
  the receiver and \<^verbatim>\<open>other\<close>, which is itself an instance of \<^verbatim>\<open>SearchStrategy\<close>.
\<close>

theorem or_rejects_non_strategy:
  "(\<not> isinstance_SearchStrategy h other \<longrightarrow> repr_other pr other = Inr described \<longrightarrow>
      or_strategy pr h self other =
        Inl (ValueError (''Cannot | a SearchStrategy with '' @ described)))
   \<and> (\<not> isinstance_SearchStrategy h other \<longrightarrow> repr_other pr other = Inl e \<longrightarrow>
      or_strategy pr h self other = Inl e)
   \<and> (isinstance_SearchStrategy h other \<longrightarrow>
      or_strategy pr h self other =
        Inr (PyObj (length h), h @ [OneOfStrategy [PyObj self, other]])
      \<and> isinstance_SearchStrategy (h @ [OneOfStrategy [PyObj self, other]]) (PyObj (length h)))"
  by (simp add: or_strategy_def one_of_strategies_def OneOfStrategy_init_def alloc_def
      isinstance_SearchStrategy_def lookup_alloc_new)

theorem or_rejects_non_strategy_witness:
  "\<not> isinstance_SearchStrategy example_heap PyNone
   \<and> repr_other example_printers PyNone = Inr ''None''
   \<and> or_strategy example_printers example_heap 0 PyNone =
       Inl (ValueError ''Cannot | a SearchStrategy with None'')
   \<and> \<not> isinstance_SearchStrategy bad_repr_heap (PyObj 10)
   \<and> repr_other bad_repr_printers (PyObj 10) = Inl (RuntimeError ''boom'')
   \<and> or_strategy bad_repr_printers bad_repr_heap 0 (PyObj 10) = Inl (RuntimeError ''boom'')
   \<and> isinstance_SearchStrategy example_heap (PyObj 1)
   \<and> or_strategy example_printers example_heap 0 (PyObj 1) =
       Inr (PyObj 10, example_heap @ [OneOfStrategy [PyObj 0, PyObj 1]])"
proof -
  have n: "\<not> isinstance_SearchStrategy example_heap PyNone"
    by (simp add: isinstance_SearchStrategy_def)
  have rn: "repr_other example_printers PyNone = Inr ''None''"
    by (simp add: example_printers_def)
  have nb: "\<not> isinstance_SearchStrategy bad_repr_heap (PyObj 10)"
    by (simp add: isinstance_SearchStrategy_def bad_repr_heap_def lookup_def
        length_example_heap nth_append)
  have rb: "repr_other bad_repr_printers (PyObj 10) = Inl (RuntimeError ''boom'')"
    by (simp add: bad_repr_printers_def)
  have y: "isinstance_SearchStrategy example_heap (PyObj 1)"
    using example_lookups(2) by (simp add: isinstance_SearchStrategy_def constant_strategy_def)
  note ok = or_rejects_non_strategy
      [where h = example_heap and other = PyNone and pr = example_printers and self = 0
         and described = "''None''",
       THEN conjunct1, THEN mp, THEN mp, OF n rn]
  note bad = or_rejects_non_strategy
      [where h = bad_repr_heap and other = "PyObj 10" and pr = bad_repr_printers and self = 0
         and e = "RuntimeError ''boom''",
       THEN conjunct2, THEN conjunct1, THEN mp, THEN mp, OF nb rb]
  note union = or_rejects_non_strategy
      [where h = example_heap and other = "PyObj 1" and pr = example_printers and self = 0,
       THEN conjunct2, THEN conjunct2, THEN mp, OF y, THEN conjunct1]
  show ?thesis
    using n rn nb rb y ok bad union by (simp add: length_example_heap)
qed

text \<open>
  The spec has every operand that is not a strategy make \<^verbatim>\<open>|\<close> fail with InvalidOperand.
  That does not hold of the code: for a strategy \<open>A\<close> and an instance of \<^verbatim>\<open>BadRepr\<close>, whose \<^verbatim>\<open>__repr__\<close> raises
  \<^verbatim>\<open>RuntimeError('boom')\<close>, the operand is not a strategy and \<^verbatim>\<open>A | BadRepr()\<close> raises that
  \<^verbatim>\<open>RuntimeError\<close>, which is not a \<^verbatim>\<open>ValueError\<close>.
\<close>

theorem or_rejects_non_strategy_counterexample:
  "\<not> isinstance_SearchStrategy bad_repr_heap (PyObj 10)
   \<and> or_strategy bad_repr_printers bad_repr_heap 0 (PyObj 10) = Inl (RuntimeError ''boom'')
   \<and> exn_type (RuntimeError ''boom'') \<noteq> ''ValueError''"
  by (simp add: or_strategy_def isinstance_SearchStrategy_def bad_repr_heap_def lookup_def
      length_example_heap nth_append bad_repr_printers_def)

text \<open>
  C7. For an instance of \<^verbatim>\<open>SearchStrategy\<close> or of a subclass that inherits \<^verbatim>\<open>do_draw\<close>,
  the call \<^verbatim>\<open>do_draw(data)\<close> returns, on every entropy source, by raising
  \<^verbatim>\<open>NotImplementedError\<close> (the spec's Unimplemented) with the message made of the name of
  the object's class followed by \<^verbatim>\<open>.do_draw\<close>.
\<close>

theorem base_do_draw_unimplemented:
  assumes "lookup h r = Some (SearchStrategy name)"
  shows "do_draw ir h (PyObj r) d = Some (Raise (NotImplementedError (name @ ''.do_draw'')))"
  using assms by (rule do_draw_SearchStrategy)

theorem base_do_draw_unimplemented_witness:
  "lookup example_heap 8 = Some (SearchStrategy ''Incomplete'')
   \<and> do_draw tape_integer_range example_heap (PyObj 8) (source [0, 1]) =
       Some (Raise (NotImplementedError ''Incomplete.do_draw''))"
  using base_do_draw_unimplemented [OF example_lookups(9), of tape_integer_range "source [0, 1]"]
  by (simp add: example_lookups)

text \<open>
  C8. Each of the public construction methods \<^verbatim>\<open>map\<close>, \<^verbatim>\<open>flatmap\<close>, \<^verbatim>\<open>filter\<close> and
  \<^verbatim>\<open>__or__\<close> (when it succeeds) returns a strategy object at an address that was unused
  before the call, and leaves every object that existed before the call, the receiver
  among them, exactly as it was. The only method of the file that writes a field of an
  existing object is \<^verbatim>\<open>__repr__\<close>, and after it every object is what it was up to its
  cached description. \<open>do_draw\<close> takes the store without returning one: drawing writes no
  field at all, so a strategy holds no state of a generation attempt.
\<close>

theorem construction_leaves_receiver_unmodified:
  "(map_strategy h self f = (v, h') \<longrightarrow>
      v = PyObj (length h) \<and> lookup h (length h) = None
      \<and> isinstance_SearchStrategy h' v
      \<and> (\<forall>q old. lookup h q = Some old \<longrightarrow> lookup h' q = Some old))
   \<and> (flatmap h self e = (v, h') \<longrightarrow>
      v = PyObj (length h) \<and> lookup h (length h) = None
      \<and> isinstance_SearchStrategy h' v
      \<and> (\<forall>q old. lookup h q = Some old \<longrightarrow> lookup h' q = Some old))
   \<and> (filter_strategy h self p = (v, h') \<longrightarrow>
      v = PyObj (length h) \<and> lookup h (length h) = None
      \<and> isinstance_SearchStrategy h' v
      \<and> (\<forall>q old. lookup h q = Some old \<longrightarrow> lookup h' q = Some old))
   \<and> (or_strategy pr h self other = Inr (v, h') \<longrightarrow>
      v = PyObj (length h) \<and> lookup h (length h) = None
      \<and> isinstance_SearchStrategy h' v
      \<and> (\<forall>q old. lookup h q = Some old \<longrightarrow> lookup h' q = Some old))
   \<and> map without_cache (snd (repr_value n pr h x)) = map without_cache h"
proof (intro conjI impI)
  assume "map_strategy h self f = (v, h')"
  then have "alloc h (MappedSearchStrategy (PyObj self) (Some f) None) = (v, h')"
    by (simp add: map_strategy_def MappedSearchStrategy_init_def)
  from alloc_creates [OF this]
  show "v = PyObj (length h)" "lookup h (length h) = None" "isinstance_SearchStrategy h' v"
    "\<forall>q old. lookup h q = Some old \<longrightarrow> lookup h' q = Some old"
    by auto
next
  assume "flatmap h self e = (v, h')"
  then have "alloc h (FlatMapStrategy (PyObj self) e) = (v, h')"
    by (simp add: flatmap_def FlatMapStrategy_init_def)
  from alloc_creates [OF this]
  show "v = PyObj (length h)" "lookup h (length h) = None" "isinstance_SearchStrategy h' v"
    "\<forall>q old. lookup h q = Some old \<longrightarrow> lookup h' q = Some old"
    by auto
next
  assume "filter_strategy h self p = (v, h')"
  then have "alloc h (FilteredStrategy (PyObj self) p None) = (v, h')"
    by (simp add: filter_strategy_def FilteredStrategy_init_def)
  from alloc_creates [OF this]
  show "v = PyObj (length h)" "lookup h (length h) = None" "isinstance_SearchStrategy h' v"
    "\<forall>q old. lookup h q = Some old \<longrightarrow> lookup h' q = Some old"
    by auto
next
  assume "or_strategy pr h self other = Inr (v, h')"
  then have "alloc h (OneOfStrategy [PyObj self, other]) = (v, h')"
    by (simp add: or_strategy_def one_of_strategies_def OneOfStrategy_init_def
        split: if_splits sum.splits)
  from alloc_creates [OF this]
  show "v = PyObj (length h)" "lookup h (length h) = None" "isinstance_SearchStrategy h' v"
    "\<forall>q old. lookup h q = Some old \<longrightarrow> lookup h' q = Some old"
    by auto
next
  show "map without_cache (snd (repr_value n pr h x)) = map without_cache h"
    by (rule repr_value_frame)
qed

theorem construction_leaves_receiver_unmodified_witness:
  "map_strategy example_heap 4 successor =
     (PyObj 10, example_heap @ [MappedSearchStrategy (PyObj 4) (Some successor) None])
   \<and> lookup example_heap 10 = None
   \<and> lookup example_heap 4 = Some position_strategy
   \<and> lookup (example_heap @ [MappedSearchStrategy (PyObj 4) (Some successor) None]) 4 =
       Some position_strategy
   \<and> flatmap example_heap 4 (\<lambda>x. PyObj 0) =
       (PyObj 10, example_heap @ [FlatMapStrategy (PyObj 4) (\<lambda>x. PyObj 0)])
   \<and> lookup (example_heap @ [FlatMapStrategy (PyObj 4) (\<lambda>x. PyObj 0)]) 4 =
       Some position_strategy
   \<and> filter_strategy example_heap 4 (\<lambda>x. x = PyInt 2) =
       (PyObj 10, example_heap @ [FilteredStrategy (PyObj 4) (\<lambda>x. x = PyInt 2) None])
   \<and> lookup (example_heap @ [FilteredStrategy (PyObj 4) (\<lambda>x. x = PyInt 2) None]) 4 =
       Some position_strategy
   \<and> or_strategy example_printers example_heap 4 (PyObj 0) =
       Inr (PyObj 10, example_heap @ [OneOfStrategy [PyObj 4, PyObj 0]])
   \<and> lookup (example_heap @ [OneOfStrategy [PyObj 4, PyObj 0]]) 4 = Some position_strategy
   \<and> repr_value (Suc (Suc 0)) example_printers example_heap (PyObj 6) =
       (Inr ''<object>.map(f)'',
        example_heap
          [6 := MappedSearchStrategy (PyObj 4) (Some successor) (Some ''<object>.map(f)'')])
   \<and> map without_cache
         (example_heap
            [6 := MappedSearchStrategy (PyObj 4) (Some successor) (Some ''<object>.map(f)'')]) =
       map without_cache example_heap"
proof -
  let ?M = "MappedSearchStrategy (PyObj 4) (Some successor) None :: tape_data obj"
  let ?B = "FlatMapStrategy (PyObj 4) (\<lambda>x. PyObj 0) :: tape_data obj"
  let ?F = "FilteredStrategy (PyObj 4) (\<lambda>x. x = PyInt 2) None :: tape_data obj"
  let ?U = "OneOfStrategy [PyObj 4, PyObj 0] :: tape_data obj"
  let ?h6 = "example_heap
               [6 := MappedSearchStrategy (PyObj 4) (Some successor) (Some ''<object>.map(f)'')]"
  have m: "map_strategy example_heap 4 successor = (PyObj 10, example_heap @ [?M])"
    by (simp add: map_strategy_def MappedSearchStrategy_init_def alloc_def length_example_heap)
  have b: "flatmap example_heap 4 (\<lambda>x. PyObj 0) = (PyObj 10, example_heap @ [?B])"
    by (simp add: flatmap_def FlatMapStrategy_init_def alloc_def length_example_heap)
  have f: "filter_strategy example_heap 4 (\<lambda>x. x = PyInt 2) = (PyObj 10, example_heap @ [?F])"
    by (simp add: filter_strategy_def FilteredStrategy_init_def alloc_def length_example_heap)
  have u: "or_strategy example_printers example_heap 4 (PyObj 0) =
             Inr (PyObj 10, example_heap @ [?U])"
    using example_lookups(1)
    by (simp add: or_strategy_def one_of_strategies_def OneOfStrategy_init_def alloc_def
        length_example_heap isinstance_SearchStrategy_def constant_strategy_def)
  have r: "repr_value (Suc (Suc 0)) example_printers example_heap (PyObj 6) =
             (Inr ''<object>.map(f)'', ?h6)"
    by (simp add: example_lookups cache_repr_def example_printers_def position_strategy_def)
       (simp add: example_heap_def)
  note p = example_lookups(5)
  note made_m = construction_leaves_receiver_unmodified
         [where h = example_heap and self = 4 and f = successor and v = "PyObj 10"
            and h' = "example_heap @ [?M]",
          THEN conjunct1, THEN mp, OF m]
  note made_b = construction_leaves_receiver_unmodified
         [where h = example_heap and self = 4 and e = "\<lambda>x. PyObj 0" and v = "PyObj 10"
            and h' = "example_heap @ [?B]",
          THEN conjunct2, THEN conjunct1, THEN mp, OF b]
  note made_f = construction_leaves_receiver_unmodified
         [where h = example_heap and self = 4 and p = "\<lambda>x. x = PyInt 2" and v = "PyObj 10"
            and h' = "example_heap @ [?F]",
          THEN conjunct2, THEN conjunct2, THEN conjunct1, THEN mp, OF f]
  note made_u = construction_leaves_receiver_unmodified
         [where h = example_heap and self = 4 and pr = example_printers and other = "PyObj 0"
            and v = "PyObj 10" and h' = "example_heap @ [?U]",
          THEN conjunct2, THEN conjunct2, THEN conjunct2, THEN conjunct1, THEN mp, OF u]
  note kept = construction_leaves_receiver_unmodified
         [where h = example_heap and n = "Suc (Suc 0)" and pr = example_printers
            and x = "PyObj 6",
          THEN conjunct2, THEN conjunct2, THEN conjunct2, THEN conjunct2, unfolded r snd_conv]
  have fresh: "lookup example_heap 10 = None"
    using made_m by (simp add: length_example_heap)
  show ?thesis
    using m b f u r p fresh kept
      made_m [THEN conjunct2, THEN conjunct2, THEN conjunct2, rule_format, OF p]
      made_b [THEN conjunct2, THEN conjunct2, THEN conjunct2, rule_format, OF p]
      made_f [THEN conjunct2, THEN conjunct2, THEN conjunct2, rule_format, OF p]
      made_u [THEN conjunct2, THEN conjunct2, THEN conjunct2, rule_format, OF p]
    by simp
qed

text \<open>
  C9. The operator \<^verbatim>\<open>|\<close> does not flatten. For strategies \<open>A\<close>, \<open>B\<close>, \<open>C\<close> at the
  addresses \<open>a\<close>, \<open>b\<close>, \<open>c\<close>, \<^verbatim>\<open>(A | B) | C\<close> creates two objects: the union \<open>AB\<close> with the
  two constituents \<open>A\<close> and \<open>B\<close>, and the result with exactly the two constituents \<open>AB\<close>
  and \<open>C\<close>. A draw from the result makes one choice between two alternatives
  (\<^verbatim>\<open>integer_range(data, 0, 1)\<close>): on 1 it draws from \<open>C\<close>; on 0 it draws from \<open>AB\<close>, which
  makes a second choice between two alternatives, 0 for \<open>A\<close> and 1 for \<open>B\<close>. With a
  primitive that chooses uniformly, \<open>C\<close> is therefore selected with probability 1/2 and
  \<open>A\<close> and \<open>B\<close> with probability 1/4 each.
\<close>

theorem or_does_not_flatten:
  assumes "isinstance_SearchStrategy h (PyObj b)" and "isinstance_SearchStrategy h (PyObj c)"
  shows "let ab = length h;
             h1 = h @ [OneOfStrategy [PyObj a, PyObj b]];
             abc = Suc (length h);
             h2 = h1 @ [OneOfStrategy [PyObj ab, PyObj c]]
         in or_strategy pr h a (PyObj b) = Inr (PyObj ab, h1)
          \<and> or_strategy pr h1 ab (PyObj c) = Inr (PyObj abc, h2)
          \<and> lookup h2 ab = Some (OneOfStrategy [PyObj a, PyObj b])
          \<and> lookup h2 abc = Some (OneOfStrategy [PyObj ab, PyObj c])
          \<and> (\<forall>ir d d1. ir d 0 1 = Return 1 d1 \<longrightarrow>
                do_draw ir h2 (PyObj abc) d = draw ir h2 d1 (PyObj c))
          \<and> (\<forall>ir d d1 d2. ir d 0 1 = Return 0 d1 \<longrightarrow> ir d1 0 1 = Return 0 d2 \<longrightarrow>
                do_draw ir h2 (PyObj abc) d = draw ir h2 d2 (PyObj a))
          \<and> (\<forall>ir d d1 d2. ir d 0 1 = Return 0 d1 \<longrightarrow> ir d1 0 1 = Return 1 d2 \<longrightarrow>
                do_draw ir h2 (PyObj abc) d = draw ir h2 d2 (PyObj b))"
proof -
  let ?AB = "OneOfStrategy [PyObj a, PyObj b] :: 'a data_scheme obj"
  let ?ABC = "OneOfStrategy [PyObj (length h), PyObj c] :: 'a data_scheme obj"
  let ?h1 = "h @ [?AB]"
  let ?h2 = "h @ [?AB, ?ABC]"
  have c1: "isinstance_SearchStrategy ?h1 (PyObj c)"
    using assms(2) by (auto simp: isinstance_SearchStrategy_def lookup_alloc_old split: option.splits)
  have or1: "or_strategy pr h a (PyObj b) = Inr (PyObj (length h), ?h1)"
    using assms(1)
    by (simp add: or_strategy_def one_of_strategies_def OneOfStrategy_init_def alloc_def)
  have or2: "or_strategy pr ?h1 (length h) (PyObj c) = Inr (PyObj (Suc (length h)), ?h2)"
    using c1 by (simp add: or_strategy_def one_of_strategies_def OneOfStrategy_init_def alloc_def)
  have lab: "lookup ?h2 (length h) = Some ?AB"
    by (simp add: lookup_def nth_append)
  have labc: "lookup ?h2 (Suc (length h)) = Some ?ABC"
    by (simp add: lookup_def nth_append)
  have top: "do_draw ir ?h2 (PyObj (Suc (length h))) d = draw ir ?h2 d1 (PyObj c)"
    if "ir d 0 1 = Return 1 d1" for ir d d1
    using that by (simp add: do_draw_OneOf [OF labc] getitem_def)
  have left: "do_draw ir ?h2 (PyObj (Suc (length h))) d = draw ir ?h2 d1 (PyObj (length h))"
    if "ir d 0 1 = Return 0 d1" for ir d d1
    using that by (simp add: do_draw_OneOf [OF labc] getitem_def)
  have inner0: "draw ir ?h2 d1 (PyObj (length h)) = draw ir ?h2 d2 (PyObj a)"
    if "ir d1 0 1 = Return 0 d2" for ir d1 d2
    using that by (simp add: draw_def [of _ _ d1] do_draw_OneOf [OF lab] getitem_def)
  have inner1: "draw ir ?h2 d1 (PyObj (length h)) = draw ir ?h2 d2 (PyObj b)"
    if "ir d1 0 1 = Return 1 d2" for ir d1 d2
    using that by (simp add: draw_def [of _ _ d1] do_draw_OneOf [OF lab] getitem_def)
  show ?thesis
    unfolding Let_def
    using or1 or2 lab labc top left inner0 inner1 by (intro conjI allI impI) simp_all
qed

theorem or_does_not_flatten_witness:
  "isinstance_SearchStrategy example_heap (PyObj 1)
   \<and> isinstance_SearchStrategy example_heap (PyObj 9)
   \<and> or_strategy example_printers example_heap 0 (PyObj 1) =
       Inr (PyObj 10, example_heap @ [OneOfStrategy [PyObj 0, PyObj 1]])
   \<and> or_strategy example_printers (example_heap @ [OneOfStrategy [PyObj 0, PyObj 1]]) 10 (PyObj 9) =
       Inr (PyObj 11,
            example_heap @ [OneOfStrategy [PyObj 0, PyObj 1], OneOfStrategy [PyObj 10, PyObj 9]])
   \<and> map (\<lambda>cs. do_draw tape_integer_range
                  (example_heap @
                     [OneOfStrategy [PyObj 0, PyObj 1], OneOfStrategy [PyObj 10, PyObj 9]])
                  (PyObj 11) (source cs))
         [[0, 0], [0, 1], [1, 0], [1, 1]] =
       [Some (Return (PyInt 1) \<lparr>index = 2, tape = []\<rparr>),
        Some (Return (PyInt 2) \<lparr>index = 2, tape = []\<rparr>),
        Some (Return (PyInt 3) \<lparr>index = 1, tape = [0]\<rparr>),
        Some (Return (PyInt 3) \<lparr>index = 1, tape = [1]\<rparr>)]"
proof -
  let ?h2 = "example_heap @ [OneOfStrategy [PyObj 0, PyObj 1], OneOfStrategy [PyObj 10, PyObj 9]]"
  have b: "isinstance_SearchStrategy example_heap (PyObj 1)"
    using example_lookups(2) by (simp add: isinstance_SearchStrategy_def constant_strategy_def)
  have c: "isinstance_SearchStrategy example_heap (PyObj 9)"
    using example_lookups(10) by (simp add: isinstance_SearchStrategy_def constant_strategy_def)
  have la: "lookup ?h2 0 = Some (constant_strategy (PyInt 1))"
    and lb: "lookup ?h2 1 = Some (constant_strategy (PyInt 2))"
    and lc: "lookup ?h2 9 = Some (constant_strategy (PyInt 3))"
    by (simp_all add: lookup_def example_heap_def)
  have t: "tape_integer_range (source [0, 0]) 0 1 = Return 0 \<lparr>index = 1, tape = [0]\<rparr>"
    "tape_integer_range (source [0, 1]) 0 1 = Return 0 \<lparr>index = 1, tape = [1]\<rparr>"
    "tape_integer_range (source [1, 0]) 0 1 = Return 1 \<lparr>index = 1, tape = [0]\<rparr>"
    "tape_integer_range (source [1, 1]) 0 1 = Return 1 \<lparr>index = 1, tape = [1]\<rparr>"
    "tape_integer_range \<lparr>index = 1, tape = [0]\<rparr> 0 1 = Return 0 \<lparr>index = 2, tape = []\<rparr>"
    "tape_integer_range \<lparr>index = 1, tape = [1]\<rparr> 0 1 = Return 1 \<lparr>index = 2, tape = []\<rparr>"
    by (simp_all add: tape_integer_range_def source_def)
  note flat = or_does_not_flatten [OF b c, where pr = example_printers and a = 0,
      unfolded Let_def length_example_heap]
  from flat have or1: "or_strategy example_printers example_heap 0 (PyObj 1) =
      Inr (PyObj 10, example_heap @ [OneOfStrategy [PyObj 0, PyObj 1]])"
    by simp
  from flat have or2:
    "or_strategy example_printers (example_heap @ [OneOfStrategy [PyObj 0, PyObj 1]]) 10 (PyObj 9) =
      Inr (PyObj 11, ?h2)"
    by simp
  from flat t(3) have d10:
    "do_draw tape_integer_range ?h2 (PyObj 11) (source [1, 0]) =
       draw tape_integer_range ?h2 \<lparr>index = 1, tape = [0]\<rparr> (PyObj 9)"
    by simp
  from flat t(4) have d11:
    "do_draw tape_integer_range ?h2 (PyObj 11) (source [1, 1]) =
       draw tape_integer_range ?h2 \<lparr>index = 1, tape = [1]\<rparr> (PyObj 9)"
    by simp
  from flat t(1) t(5) have d00:
    "do_draw tape_integer_range ?h2 (PyObj 11) (source [0, 0]) =
       draw tape_integer_range ?h2 \<lparr>index = 2, tape = []\<rparr> (PyObj 0)"
    by simp
  from flat t(2) t(6) have d01:
    "do_draw tape_integer_range ?h2 (PyObj 11) (source [0, 1]) =
       draw tape_integer_range ?h2 \<lparr>index = 2, tape = []\<rparr> (PyObj 1)"
    by simp
  note r00 = trans [OF d00 draw_constant [OF la]]
    and r01 = trans [OF d01 draw_constant [OF lb]]
    and r10 = trans [OF d10 draw_constant [OF lc]]
    and r11 = trans [OF d11 draw_constant [OF lc]]
  show ?thesis
    using b c or1 or2 r00 r01 r10 r11 by simp
qed

text \<open>
  C10. The three failures at construction time, \<^verbatim>\<open>one_of_strategies\<close> on no strategies, the
  class \<^verbatim>\<open>OneOfStrategy\<close> called with fewer than two elements, and \<^verbatim>\<open>|\<close> with an operand that
  is not a strategy and whose \<^verbatim>\<open>repr\<close> returns, all raise an exception of the one class
  \<^verbatim>\<open>ValueError\<close>, so the class of the exception does not tell them apart; their messages
  are pairwise different.
\<close>

theorem construction_errors_share_type:
  assumes "length xs \<le> 1" and "\<not> isinstance_SearchStrategy h other"
    and "repr_other pr other = Inr described"
  shows "\<exists>e1 e2 e3.
           one_of_strategies h [] = Inl e1
         \<and> OneOfStrategy_init h xs = Inl e2
         \<and> or_strategy pr h self other = Inl e3
         \<and> exn_type e1 = ''ValueError''
         \<and> exn_type e2 = ''ValueError''
         \<and> exn_type e3 = ''ValueError''
         \<and> exn_message e1 \<noteq> exn_message e2
         \<and> exn_message e1 \<noteq> exn_message e3
         \<and> exn_message e2 \<noteq> exn_message e3"
  using assms by (simp add: or_strategy_def one_of_strategies_def OneOfStrategy_init_def)

theorem construction_errors_share_type_witness:
  "length [PyObj 0] \<le> 1 \<and> \<not> isinstance_SearchStrategy example_heap PyNone
   \<and> repr_other example_printers PyNone = Inr ''None''
   \<and> (\<exists>e1 e2 e3.
           one_of_strategies example_heap [] = Inl e1
         \<and> OneOfStrategy_init example_heap [PyObj 0] = Inl e2
         \<and> or_strategy example_printers example_heap 0 PyNone = Inl e3
         \<and> exn_type e1 = ''ValueError''
         \<and> exn_type e2 = ''ValueError''
         \<and> exn_type e3 = ''ValueError''
         \<and> exn_message e1 \<noteq> exn_message e2
         \<and> exn_message e1 \<noteq> exn_message e3
         \<and> exn_message e2 \<noteq> exn_message e3)"
proof -
  have l: "length [PyObj 0] \<le> 1" by simp
  have n: "\<not> isinstance_SearchStrategy example_heap PyNone"
    by (simp add: isinstance_SearchStrategy_def)
  have rn: "repr_other example_printers PyNone = Inr ''None''"
    by (simp add: example_printers_def)
  from construction_errors_share_type [OF l n rn, of 0] l n rn
  show ?thesis by blast
qed

text \<open>
  Without the condition on \<^verbatim>\<open>repr\<close> the three failures do not share a class: the union of
  a strategy with an instance of \<^verbatim>\<open>BadRepr\<close> is a failure of the third kind, and it raises
  \<^verbatim>\<open>RuntimeError\<close>, an exception of another class than the \<^verbatim>\<open>ValueError\<close> of the empty
  union.
\<close>

theorem construction_errors_share_type_counterexample:
  "one_of_strategies bad_repr_heap [] =
     Inl (ValueError ''Cannot join an empty list of strategies'')
   \<and> \<not> isinstance_SearchStrategy bad_repr_heap (PyObj 10)
   \<and> or_strategy bad_repr_printers bad_repr_heap 0 (PyObj 10) = Inl (RuntimeError ''boom'')
   \<and> exn_type (RuntimeError ''boom'') \<noteq>
       exn_type (ValueError ''Cannot join an empty list of strategies'')"
  by (simp add: one_of_strategies_def or_strategy_def isinstance_SearchStrategy_def
      bad_repr_heap_def lookup_def length_example_heap nth_append bad_repr_printers_def)

end
